theory Spec2Isabelle
  imports Complex_Main
begin

section \<open>Shared notions: errors, settled promises, request configurations\<close>

text \<open>
  An error that reaches an interceptor or a \<^verbatim>\<open>catch\<close> block is either an axios error or a
  plain JavaScript \<^verbatim>\<open>Error\<close>. Of an axios error the code reads two things only:
  \<^verbatim>\<open>error.response?.status\<close> (absent when no response arrived, as on a network failure) and
  \<^verbatim>\<open>error.response?.data?.message\<close>.
\<close>

datatype err =
    AxiosError "nat option" "string option"
  | Error string

fun status :: "err \<Rightarrow> nat option" where
  "status (AxiosError st msg) = st"
| "status (Error msg) = None"

fun message :: "err \<Rightarrow> string option" where
  "message (AxiosError st msg) = msg"
| "message (Error msg) = None"

text \<open>
  An awaited promise that settles either rejects (\<open>Inl\<close>) or resolves (\<open>Inr\<close>); the
  value of type \<open>err + 'a\<close> is what the \<^verbatim>\<open>await\<close> yields.

  JavaScript truthiness of a string that may be \<^verbatim>\<open>null\<close>: \<^verbatim>\<open>if (token)\<close> holds when the
  string is present and not empty.
\<close>

fun truthy :: "string option \<Rightarrow> bool" where
  "truthy None = False"
| "truthy (Some t) = (t \<noteq> [])"

definition Bearer :: "string \<Rightarrow> string" where
  "Bearer t = ''Bearer '' @ t"

text \<open>
  The axios request configuration. \<open>authorization\<close> is \<^verbatim>\<open>headers.Authorization\<close>,
  \<open>retry\<close> is the \<^verbatim>\<open>_retry\<close> mark the restaurant portal puts on a request.
\<close>

record config =
  url :: string
  body :: string
  authorization :: "string option"
  retry :: bool

record user =
  uid :: string
  uname :: string
  email :: string

section \<open>Restaurant portal: \<^verbatim>\<open>UserService\<close> (userService.ts)\<close>

text \<open>
  The service object holds \<^verbatim>\<open>isRefreshing\<close> and \<^verbatim>\<open>refreshSubscribers\<close>; the credential
  is the \<^verbatim>\<open>token\<close> item of localStorage. Every subscriber callback closes over the
  \<^verbatim>\<open>originalRequest\<close> it will replay, so the queue is kept as the list of those requests.
  \<open>inFlight\<close> lists the interceptor invocations suspended at
  \<^verbatim>\<open>await this.refreshToken(token)\<close>: each with its \<^verbatim>\<open>originalRequest\<close> and the token it
  passed to \<^verbatim>\<open>refreshToken\<close>.
\<close>

record service =
  isRefreshing :: bool
  refreshSubscribers :: "config list"
  ls_token :: "string option"
  inFlight :: "(config \<times> string) list"

text \<open>What a step does to the outside world.\<close>

datatype action =
    RefreshCall string
  | Send config
  | Reject config err

text \<open>The request interceptor (lines 118-125): attach the stored token, if there is one.\<close>

definition requestInterceptor :: "service \<Rightarrow> 'a config_scheme \<Rightarrow> 'a config_scheme" where
  "requestInterceptor s cfg =
     (case ls_token s of
        None \<Rightarrow> cfg
      | Some token \<Rightarrow>
          if token \<noteq> [] then cfg\<lparr>authorization := Some (Bearer token)\<rparr> else cfg)"

definition onTokenRefreshed :: "service \<Rightarrow> config \<Rightarrow> service" where
  "onTokenRefreshed s originalRequest =
     s\<lparr>refreshSubscribers := refreshSubscribers s @ [originalRequest]\<rparr>"

text \<open>
  The callback registered at lines 142-145: put the new token on the queued request and
  hand it to \<^verbatim>\<open>this.axiosInstance\<close>, whose request interceptor runs before it is sent.
\<close>

definition subscriberCallback :: "service \<Rightarrow> config \<Rightarrow> string \<Rightarrow> action" where
  "subscriberCallback s originalRequest token =
     Send (requestInterceptor s (originalRequest\<lparr>authorization := Some (Bearer token)\<rparr>))"

definition notifySubscribersAboutTokenRefresh :: "service \<Rightarrow> string \<Rightarrow> service \<times> action list" where
  "notifySubscribersAboutTokenRefresh s token =
     (s\<lparr>refreshSubscribers := []\<rparr>,
      map (\<lambda>callback. subscriberCallback s callback token) (refreshSubscribers s))"

text \<open>
  \<^verbatim>\<open>refreshToken(token)\<close> (lines 216-237). \<open>post\<close> is what awaiting the POST to
  \<^verbatim>\<open>/auth/refresh-token\<close> yields (the \<^verbatim>\<open>token\<close> of the response data), \<open>me\<close> what awaiting
  the fallback \<^verbatim>\<open>getCurrentUser()\<close> yields; the fallback is consulted only after a failed
  POST. Both calls go through \<^verbatim>\<open>this.axiosInstance\<close>, hence through the interceptors: an
  error response to either of them is first a \<open>ResponseError\<close> event of its own, and the
  outcomes here are what the awaits yield after that.
\<close>

definition refreshToken :: "string \<Rightarrow> err + string \<Rightarrow> err + user \<Rightarrow> err + string" where
  "refreshToken token post me =
     (case post of
        Inr newToken \<Rightarrow> Inr newToken
      | Inl error \<Rightarrow> (case me of Inr u \<Rightarrow> Inr token | Inl error' \<Rightarrow> Inl error))"

text \<open>
  The error handler of the response interceptor (lines 134-181), up to its
  \<^verbatim>\<open>await\<close>: JavaScript runs it without interruption.
\<close>

definition responseInterceptor :: "service \<Rightarrow> config \<Rightarrow> err \<Rightarrow> service \<times> action list" where
  "responseInterceptor s originalRequest error =
     (if status error = Some 401 \<and> \<not> retry originalRequest then
        if isRefreshing s then (onTokenRefreshed s originalRequest, [])
        else
          let originalRequest = originalRequest\<lparr>retry := True\<rparr>;
              s = s\<lparr>isRefreshing := True\<rparr>;
              noToken = (s\<lparr>isRefreshing := False, ls_token := None\<rparr>,
                         [Reject originalRequest (Error ''No token found'')])
          in case ls_token s of
               None \<Rightarrow> noToken
             | Some token \<Rightarrow>
                 if token = [] then noToken
                 else (s\<lparr>inFlight := inFlight s @ [(originalRequest, token)]\<rparr>,
                       [RefreshCall token])
      else (s, [Reject originalRequest error]))"

text \<open>
  The rest of the handler, run when \<^verbatim>\<open>refreshToken\<close> has settled with \<open>response\<close>
  (lines 159-177).
\<close>

definition refreshSettled :: "service \<Rightarrow> config \<Rightarrow> err + string \<Rightarrow> service \<times> action list" where
  "refreshSettled s originalRequest response =
     (case response of
        Inr newToken \<Rightarrow>
          let s = s\<lparr>ls_token := Some newToken\<rparr>;
              originalRequest = originalRequest\<lparr>authorization := Some (Bearer newToken)\<rparr>;
              (s, replays) = notifySubscribersAboutTokenRefresh s newToken;
              s = s\<lparr>isRefreshing := False\<rparr>
          in (s, replays @ [Send (requestInterceptor s originalRequest)])
      | Inl refreshError \<Rightarrow>
          (s\<lparr>isRefreshing := False, ls_token := None\<rparr>, [Reject originalRequest refreshError]))"

text \<open>
  Events of the service: a response error reaches the interceptor, or the refresh in
  flight settles (with the outcomes of its POST and of its fallback call).
\<close>

datatype event =
    ResponseError config err
  | RefreshDone "err + string" "err + user"

fun step :: "service \<Rightarrow> event \<Rightarrow> service \<times> action list" where
  "step s (ResponseError originalRequest error) = responseInterceptor s originalRequest error"
| "step s (RefreshDone post me) =
     (case inFlight s of
        [] \<Rightarrow> (s, [])
      | (originalRequest, token) # rest \<Rightarrow>
          refreshSettled (s\<lparr>inFlight := rest\<rparr>) originalRequest (refreshToken token post me))"

fun run :: "service \<Rightarrow> event list \<Rightarrow> service \<times> action list" where
  "run s [] = (s, [])"
| "run s (e # es) =
     (let (s1, acts1) = step s e; (s2, acts2) = run s1 es in (s2, acts1 @ acts2))"

definition initial :: "string option \<Rightarrow> service" where
  "initial token = \<lparr>isRefreshing = False, refreshSubscribers = [], ls_token = token, inFlight = []\<rparr>"

text \<open>The states of the specification, read off the service.\<close>

datatype phase = NoSession | Active | Refreshing

definition phase_of :: "service \<Rightarrow> phase" where
  "phase_of s = (if isRefreshing s then Refreshing else if truthy (ls_token s) then Active else NoSession)"

section \<open>Admin portal: \<^verbatim>\<open>AuthProvider\<close> with sessionStorage (unnamed/part_000)\<close>

text \<open>
  The \<^verbatim>\<open>storage\<close> helper (lines 66-77) keeps \<^verbatim>\<open>JSON.stringify(value)\<close> and reads it back
  with \<^verbatim>\<open>JSON.parse\<close>. A stored item is kept here as the value it parses to;
  \<^verbatim>\<open>storage.set(key, undefined)\<close> leaves the text \<^verbatim>\<open>undefined\<close>, which \<^verbatim>\<open>JSON.parse\<close>
  refuses, so reading it back throws.
\<close>

datatype 'a item = Parsed 'a | Unparseable

definition storage_get :: "'a item option \<Rightarrow> err + 'a option" where
  "storage_get entry =
     (case entry of
        None \<Rightarrow> Inr None
      | Some (Parsed v) \<Rightarrow> Inr (Some v)
      | Some Unparseable \<Rightarrow> Inl (Error ''SyntaxError''))"

definition storage_set :: "'a option \<Rightarrow> 'a item option" where
  "storage_set v = (case v of None \<Rightarrow> Some Unparseable | Some x \<Rightarrow> Some (Parsed x))"

text \<open>
  \<open>adminToken\<close> is written at two places only, both under \<^verbatim>\<open>if (response.data.token)\<close>,
  so what is stored under that key always parses to a string. \<open>refreshPending\<close> lists
  the interceptor invocations suspended at \<^verbatim>\<open>await refreshToken()\<close> with their
  \<^verbatim>\<open>error.config\<close>.
\<close>

record admin =
  adminToken :: "string option"
  refreshTokenItem :: "string item option"
  adminUser :: "user item option"
  admin_user :: "user option"
  admin_isAuthenticated :: bool
  refreshPending :: "config list"

datatype admin_action =
    ARefreshCall string
  | ASend config
  | AReject config err
  | ALogoutThenReject config err

record token_response =
  r_token :: "string option"
  r_refreshToken :: "string option"
  r_user :: "user option"

definition admin_requestInterceptor :: "admin \<Rightarrow> 'a config_scheme \<Rightarrow> 'a config_scheme" where
  "admin_requestInterceptor s cfg =
     (case adminToken s of
        None \<Rightarrow> cfg
      | Some token \<Rightarrow>
          if token \<noteq> [] then cfg\<lparr>authorization := Some (Bearer token)\<rparr> else cfg)"

text \<open>\<^verbatim>\<open>refreshToken\<close> (lines 147-167) up to its POST: the stored refresh token, or the error thrown.\<close>

definition admin_refreshToken_begin :: "admin \<Rightarrow> err + string" where
  "admin_refreshToken_begin s =
     (case storage_get (refreshTokenItem s) of
        Inl error \<Rightarrow> Inl error
      | Inr None \<Rightarrow> Inl (Error ''No refresh token found'')
      | Inr (Some stored) \<Rightarrow>
          if stored = [] then Inl (Error ''No refresh token found'') else Inr stored)"

subsection \<open>The response interceptor, event by event\<close>

text \<open>
  The error handler of the response interceptor (lines 105-118), up to the POST of the
  refresh. When \<^verbatim>\<open>refreshToken\<close> throws, its \<^verbatim>\<open>catch\<close> awaits \<^verbatim>\<open>logout()\<close> and rethrows, and the
  \<^verbatim>\<open>catch\<close> of the handler awaits \<^verbatim>\<open>logout()\<close> again before it rejects: the event model
  records that hand-over as \<open>ALogoutThenReject\<close> and does not follow it; what \<^verbatim>\<open>logout\<close> does
  is the subject of \<open>admin_logout\<close> below.
\<close>

definition admin_responseInterceptor :: "admin \<Rightarrow> config \<Rightarrow> err \<Rightarrow> admin \<times> admin_action list" where
  "admin_responseInterceptor s cfg error =
     (if status error = Some 401 then
        case admin_refreshToken_begin s of
          Inr stored \<Rightarrow>
            (s\<lparr>refreshPending := refreshPending s @ [cfg]\<rparr>, [ARefreshCall stored])
        | Inl refreshError \<Rightarrow> (s, [ALogoutThenReject cfg refreshError])
      else (s, [AReject cfg error]))"

text \<open>
  The rest of \<^verbatim>\<open>refreshToken\<close> and of the handler, once awaiting the POST of the refresh has
  yielded \<open>response\<close> (lines 156-161 and 109-115). That POST goes through the interceptors
  like any other call: an error response to it is first an \<open>AResponseError\<close> event of its
  own.
\<close>

definition admin_refreshSettled ::
    "admin \<Rightarrow> config \<Rightarrow> err + token_response \<Rightarrow> admin \<times> admin_action list" where
  "admin_refreshSettled s cfg response =
     (case response of
        Inl error \<Rightarrow> (s, [ALogoutThenReject cfg error])
      | Inr data \<Rightarrow>
          if truthy (r_token data) then
            let s = s\<lparr>adminToken := r_token data,
                      refreshTokenItem := storage_set (r_refreshToken data)\<rparr>;
                token = (case adminToken s of None \<Rightarrow> ''null'' | Some t \<Rightarrow> t);
                cfg = cfg\<lparr>authorization := Some (Bearer token)\<rparr>
            in (s, [ASend (admin_requestInterceptor s cfg)])
          else (s, [ALogoutThenReject cfg (Error ''No token in response'')]))"

datatype admin_event =
    AResponseError config err
  | ARefreshDone "err + token_response"

fun admin_step :: "admin \<Rightarrow> admin_event \<Rightarrow> admin \<times> admin_action list" where
  "admin_step s (AResponseError cfg error) = admin_responseInterceptor s cfg error"
| "admin_step s (ARefreshDone response) =
     (case refreshPending s of
        [] \<Rightarrow> (s, [])
      | cfg # rest \<Rightarrow> admin_refreshSettled (s\<lparr>refreshPending := rest\<rparr>) cfg response)"

fun admin_run :: "admin \<Rightarrow> admin_event list \<Rightarrow> admin \<times> admin_action list" where
  "admin_run s [] = (s, [])"
| "admin_run s (e # es) =
     (let (s1, acts1) = admin_step s e; (s2, acts2) = admin_run s1 es in (s2, acts1 @ acts2))"

subsection \<open>One call from start to end: axios, \<^verbatim>\<open>refreshToken\<close>, \<^verbatim>\<open>logout\<close>, \<^verbatim>\<open>login\<close>\<close>

text \<open>
  Every \<^verbatim>\<open>axios\<close> call of the admin portal, those of \<^verbatim>\<open>refreshToken\<close>, \<^verbatim>\<open>logout\<close> and \<^verbatim>\<open>login\<close>
  included, goes through the two interceptors, and the error handler calls
  \<^verbatim>\<open>refreshToken\<close> and \<^verbatim>\<open>logout\<close> in turn: the three functions call one another. They are
  followed here for one caller at a time. The server is a function of the number of calls
  it has answered so far and of the request; the state is paired with that number. The
  first argument bounds the depth of nested calls: \<open>None\<close> means that the call has not
  returned within that depth. The endpoint paths come from \<^verbatim>\<open>../config/api\<close> and are a
  parameter.
\<close>

type_synonym server = "nat \<Rightarrow> config \<Rightarrow> err + token_response"

record endpoints =
  ep_login :: string
  ep_logout :: string
  ep_refreshToken :: string

text \<open>The \<^verbatim>\<open>finally\<close> block of \<^verbatim>\<open>logout\<close> (lines 224-230).\<close>

definition admin_clear :: "admin \<Rightarrow> admin" where
  "admin_clear s =
     s\<lparr>adminToken := None, refreshTokenItem := None, adminUser := None,
       admin_user := None, admin_isAuthenticated := False\<rparr>"

definition refreshRequest :: "endpoints \<Rightarrow> string \<Rightarrow> config" where
  "refreshRequest api stored =
     \<lparr>url = ep_refreshToken api, body = ''refreshToken='' @ stored, authorization = None,
      retry = False\<rparr>"

definition logoutRequest :: "endpoints \<Rightarrow> string \<Rightarrow> config" where
  "logoutRequest api token =
     \<lparr>url = ep_logout api, body = [], authorization = Some (Bearer token), retry = False\<rparr>"

definition loginRequest :: "endpoints \<Rightarrow> string \<Rightarrow> string \<Rightarrow> config" where
  "loginRequest api address password =
     \<lparr>url = ep_login api, body = ''email='' @ address @ ''&password='' @ password,
      authorization = None, retry = False\<rparr>"

text \<open>
  \<open>admin_axios\<close> is a call of \<^verbatim>\<open>axios\<close> with both interceptors (lines 92-119),
  \<open>admin_refreshToken\<close> is \<^verbatim>\<open>refreshToken\<close> (lines 147-167) and \<open>admin_logout\<close> is \<^verbatim>\<open>logout\<close>
  (lines 214-231).
\<close>

fun admin_axios ::
      "nat \<Rightarrow> endpoints \<Rightarrow> server \<Rightarrow> admin \<times> nat \<Rightarrow> config \<Rightarrow>
       ((admin \<times> nat) \<times> (err + token_response)) option"
  and admin_refreshToken ::
      "nat \<Rightarrow> endpoints \<Rightarrow> server \<Rightarrow> admin \<times> nat \<Rightarrow> ((admin \<times> nat) \<times> (err + string)) option"
  and admin_logout ::
      "nat \<Rightarrow> endpoints \<Rightarrow> server \<Rightarrow> admin \<times> nat \<Rightarrow> (admin \<times> nat) option"
where
  "admin_axios 0 api srv w cfg = None"
| "admin_axios (Suc n) api srv w cfg =
     (case srv (snd w) (admin_requestInterceptor (fst w) cfg) of
        Inr data \<Rightarrow> Some ((fst w, Suc (snd w)), Inr data)
      | Inl error \<Rightarrow>
          if status error = Some 401 then
            (case admin_refreshToken n api srv (fst w, Suc (snd w)) of
               None \<Rightarrow> None
             | Some (w1, Inr refreshed) \<Rightarrow>
                 let token = (case adminToken (fst w1) of None \<Rightarrow> ''null'' | Some t \<Rightarrow> t)
                 in admin_axios n api srv w1 (cfg\<lparr>authorization := Some (Bearer token)\<rparr>)
             | Some (w1, Inl refreshError) \<Rightarrow>
                 (case admin_logout n api srv w1 of
                    None \<Rightarrow> None
                  | Some w2 \<Rightarrow> Some (w2, Inl refreshError)))
          else Some ((fst w, Suc (snd w)), Inl error))"
| "admin_refreshToken 0 api srv w = None"
| "admin_refreshToken (Suc n) api srv w =
     (case admin_refreshToken_begin (fst w) of
        Inl error \<Rightarrow>
          (case admin_logout n api srv w of None \<Rightarrow> None | Some w1 \<Rightarrow> Some (w1, Inl error))
      | Inr stored \<Rightarrow>
          (case admin_axios n api srv w (refreshRequest api stored) of
             None \<Rightarrow> None
           | Some (w1, Inl error) \<Rightarrow>
               (case admin_logout n api srv w1 of None \<Rightarrow> None | Some w2 \<Rightarrow> Some (w2, Inl error))
           | Some (w1, Inr data) \<Rightarrow>
               (case r_token data of
                  None \<Rightarrow>
                    (case admin_logout n api srv w1 of
                       None \<Rightarrow> None
                     | Some w2 \<Rightarrow> Some (w2, Inl (Error ''No token in response'')))
                | Some token \<Rightarrow>
                    if token \<noteq> [] then
                      Some (((fst w1)\<lparr>adminToken := Some token,
                                refreshTokenItem := storage_set (r_refreshToken data)\<rparr>, snd w1),
                            Inr token)
                    else
                      (case admin_logout n api srv w1 of
                         None \<Rightarrow> None
                       | Some w2 \<Rightarrow> Some (w2, Inl (Error ''No token in response''))))))"
| "admin_logout 0 api srv w = None"
| "admin_logout (Suc n) api srv w =
     (case adminToken (fst w) of
        None \<Rightarrow> Some (admin_clear (fst w), snd w)
      | Some token \<Rightarrow>
          if token \<noteq> [] then
            (case admin_axios n api srv w (logoutRequest api token) of
               None \<Rightarrow> None
             | Some (w1, outcome) \<Rightarrow> Some (admin_clear (fst w1), snd w1))
          else Some (admin_clear (fst w), snd w))"

text \<open>
  \<^verbatim>\<open>login\<close> (lines 192-212). Whatever is thrown inside the \<^verbatim>\<open>try\<close> is replaced by one fixed
  error.
\<close>

definition admin_login ::
    "nat \<Rightarrow> endpoints \<Rightarrow> server \<Rightarrow> admin \<times> nat \<Rightarrow> string \<Rightarrow> string \<Rightarrow>
     ((admin \<times> nat) \<times> (err + unit)) option" where
  "admin_login n api srv w address password =
     (case admin_axios n api srv w (loginRequest api address password) of
        None \<Rightarrow> None
      | Some (w1, Inl error) \<Rightarrow> Some (w1, Inl (Error ''Invalid email or password''))
      | Some (w1, Inr data) \<Rightarrow>
          if truthy (r_token data) then
            Some (((fst w1)\<lparr>adminToken := r_token data,
                      refreshTokenItem := storage_set (r_refreshToken data),
                      adminUser := storage_set (r_user data),
                      admin_user := r_user data,
                      admin_isAuthenticated := True\<rparr>, snd w1),
                  Inr ())
          else Some (w1, Inl (Error ''Invalid email or password'')))"

definition admin_noSession :: "admin \<Rightarrow> bool" where
  "admin_noSession s =
     (adminToken s = None \<and> refreshTokenItem s = None \<and> adminUser s = None \<and>
      admin_user s = None \<and> \<not> admin_isAuthenticated s)"

section \<open>Customer portal: \<^verbatim>\<open>AuthProvider\<close> with localStorage (AuthContext.tsx)\<close>

text \<open>
  The React state \<^verbatim>\<open>user\<close>, \<^verbatim>\<open>token\<close>, \<^verbatim>\<open>isLoading\<close>, \<^verbatim>\<open>error\<close>, and the \<^verbatim>\<open>token\<close> item of
  localStorage (\<open>c_stored\<close>).
\<close>

record customer =
  c_user :: "user option"
  c_token :: "string option"
  c_stored :: "string option"
  c_isLoading :: bool
  c_error :: "string option"

text \<open>The state on start-up (lines 39-47): the token comes from localStorage, no user is loaded.\<close>

definition customer_initial :: "string option \<Rightarrow> customer" where
  "customer_initial stored =
     \<lparr>c_user = None, c_token = stored, c_stored = stored, c_isLoading = False, c_error = None\<rparr>"

definition isAuthenticated :: "customer \<Rightarrow> bool" where
  "isAuthenticated s = (truthy (c_token s) \<and> c_user s \<noteq> None)"

text \<open>
  \<^verbatim>\<open>loadUser\<close> (lines 51-65): \<open>response\<close> is what awaiting GET \<^verbatim>\<open>/auth/me\<close> yields, the
  \<^verbatim>\<open>user\<close> of the response data.
\<close>

definition loadUser :: "customer \<Rightarrow> err + user option \<Rightarrow> customer" where
  "loadUser s response =
     (if truthy (c_token s) \<and> c_user s = None then
        case response of
          Inr u \<Rightarrow> s\<lparr>c_user := u\<rparr>
        | Inl error \<Rightarrow> s\<lparr>c_stored := None, c_token := None\<rparr>
      else s)"

text \<open>
  \<^verbatim>\<open>login\<close> (lines 94-117). \<^verbatim>\<open>localStorage.setItem\<close> turns a missing token into the text
  \<^verbatim>\<open>undefined\<close>. The function returns a boolean.
\<close>

definition login :: "customer \<Rightarrow> err + token_response \<Rightarrow> customer \<times> bool" where
  "login s response =
     (let s = s\<lparr>c_isLoading := True, c_error := None\<rparr> in
      case response of
        Inr data \<Rightarrow>
          (s\<lparr>c_user := r_user data,
             c_token := r_token data,
             c_stored := Some (case r_token data of None \<Rightarrow> ''undefined'' | Some t \<Rightarrow> t),
             c_isLoading := False\<rparr>,
           True)
      | Inl error \<Rightarrow>
          let errorMessage =
                (case message error of
                   None \<Rightarrow> ''Login failed''
                 | Some m \<Rightarrow> if m \<noteq> [] then m else ''Login failed'')
          in (s\<lparr>c_error := Some errorMessage, c_isLoading := False\<rparr>, False))"

text \<open>\<^verbatim>\<open>logout\<close> (lines 154-159): no network call at all.\<close>

definition logout :: "customer \<Rightarrow> customer" where
  "logout s = s\<lparr>c_user := None, c_token := None, c_stored := None\<rparr>"

definition noSession :: "customer \<Rightarrow> bool" where
  "noSession s = (c_user s = None \<and> c_token s = None \<and> c_stored s = None)"

subsection \<open>The session timer\<close>

text \<open>\<^verbatim>\<open>String.prototype.split\<close> on a one-character separator.\<close>

fun split_on :: "char \<Rightarrow> string \<Rightarrow> string list" where
  "split_on c [] = [[]]"
| "split_on c (x # xs) =
     (if x = c then [] # split_on c xs
      else (case split_on c xs of [] \<Rightarrow> [[x]] | y # ys \<Rightarrow> (x # y) # ys))"

text \<open>
  The numbers of the timer are JavaScript numbers and its arithmetic is the browser's:
  neither is code of the repository, so the operations are a parameter. \<open>'n\<close> is the type
  of the values, \<open>js_lit\<close> gives the value of a numeric literal, and the other fields are
  \<^verbatim>\<open>*\<close>, \<^verbatim>\<open>-\<close>, \<^verbatim>\<open>/\<close>, \<^verbatim>\<open>Math.floor\<close> and the comparison \<^verbatim>\<open>>\<close>.
\<close>

record 'n number_ops =
  js_lit :: "int \<Rightarrow> 'n"
  js_times :: "'n \<Rightarrow> 'n \<Rightarrow> 'n"
  js_minus :: "'n \<Rightarrow> 'n \<Rightarrow> 'n"
  js_divide :: "'n \<Rightarrow> 'n \<Rightarrow> 'n"
  js_floor :: "'n \<Rightarrow> 'n"
  js_greater :: "'n \<Rightarrow> 'n \<Rightarrow> bool"

text \<open>
  \<^verbatim>\<open>checkTokenExpiration\<close> (lines 72-86) with what it hands to \<^verbatim>\<open>setSessionTimeRemaining\<close>
  as its result. The browser's \<^verbatim>\<open>atob\<close> and \<^verbatim>\<open>JSON.parse\<close> are a parameter too:
  \<open>payloadExp\<close> stands for \<^verbatim>\<open>JSON.parse(atob(segment)).exp\<close>, \<open>None\<close> when evaluating it
  throws. A token without a second segment hands \<^verbatim>\<open>undefined\<close> to \<^verbatim>\<open>atob\<close>, which reads it
  as the text \<^verbatim>\<open>undefined\<close>. \<open>now\<close> is \<^verbatim>\<open>Date.now()\<close>.
\<close>

definition payloadSegment :: "string \<Rightarrow> string" where
  "payloadSegment token =
     (case split_on CHR ''.'' token of
        header # segment # rest \<Rightarrow> segment
      | _ \<Rightarrow> ''undefined'')"

definition checkTokenExpiration ::
    "'n number_ops \<Rightarrow> (string \<Rightarrow> 'n option) \<Rightarrow> 'n \<Rightarrow> string option \<Rightarrow> 'n option" where
  "checkTokenExpiration js payloadExp now token =
     (case token of
        None \<Rightarrow> None
      | Some t \<Rightarrow>
          if t = [] then None
          else
            (case payloadExp (payloadSegment t) of
               None \<Rightarrow> None
             | Some payload_exp \<Rightarrow>
                 let expiryTime = js_times js payload_exp (js_lit js 1000);
                     remaining =
                       js_floor js (js_divide js (js_minus js expiryTime now) (js_lit js 1000))
                 in Some (if js_greater js remaining (js_lit js 0) then remaining
                          else js_lit js 0)))"

text \<open>
  One arithmetic to run the timer on: exact rational numbers and \<^verbatim>\<open>NaN\<close>. The browser's
  doubles give the same results wherever they compute without rounding. Division by
  zero, which the timer never performs, is given \<^verbatim>\<open>NaN\<close> here.
\<close>

datatype jsnum = NaN | Num rat

definition exact_numbers :: "jsnum number_ops" where
  "exact_numbers =
     \<lparr>js_lit = (\<lambda>i. Num (of_int i)),
      js_times = (\<lambda>x y. case (x, y) of (Num a, Num b) \<Rightarrow> Num (a * b) | _ \<Rightarrow> NaN),
      js_minus = (\<lambda>x y. case (x, y) of (Num a, Num b) \<Rightarrow> Num (a - b) | _ \<Rightarrow> NaN),
      js_divide =
        (\<lambda>x y. case (x, y) of (Num a, Num b) \<Rightarrow> if b = 0 then NaN else Num (a / b) | _ \<Rightarrow> NaN),
      js_floor = (\<lambda>x. case x of Num a \<Rightarrow> Num (of_int \<lfloor>a\<rfloor>) | NaN \<Rightarrow> NaN),
      js_greater = (\<lambda>x y. case (x, y) of (Num a, Num b) \<Rightarrow> b < a | _ \<Rightarrow> False)\<rparr>"

section \<open>Notions used in the statements\<close>

definition single_flight :: "service \<Rightarrow> bool" where
  "single_flight s = (length (inFlight s) \<le> 1 \<and> isRefreshing s = (inFlight s \<noteq> []))"

definition withBearer :: "string \<Rightarrow> config \<Rightarrow> config" where
  "withBearer token cfg = cfg\<lparr>authorization := Some (Bearer token)\<rparr>"

text \<open>Sample inputs for the worked instances below.\<close>

abbreviation req :: "string \<Rightarrow> config" where
  "req u \<equiv> \<lparr>url = u, body = [], authorization = None, retry = False\<rparr>"

abbreviation unauthorized :: err where
  "unauthorized \<equiv> AxiosError (Some 401) None"

abbreviation user0 :: user where
  "user0 \<equiv> \<lparr>uid = ''u1'', uname = ''Ann'', email = ''ann@example.org''\<rparr>"

abbreviation api0 :: endpoints where
  "api0 \<equiv> \<lparr>ep_login = ''/auth/login'', ep_logout = ''/auth/logout'',
     ep_refreshToken = ''/auth/refresh-token''\<rparr>"

abbreviation admin0 :: admin where
  "admin0 \<equiv> \<lparr>adminToken = Some ''t0'', refreshTokenItem = Some (Parsed ''r0''),
     adminUser = Some (Parsed user0), admin_user = Some user0,
     admin_isAuthenticated = True, refreshPending = []\<rparr>"

section \<open>Helper facts about the restaurant-portal service\<close>

lemma requestInterceptor_same:
  "ls_token s = Some new \<Longrightarrow>
   requestInterceptor s (cfg\<lparr>authorization := Some (Bearer new)\<rparr>) =
   cfg\<lparr>authorization := Some (Bearer new)\<rparr>"
  by (simp add: requestInterceptor_def)

lemma run_append:
  "run s (es @ fs) = (let (s1, a1) = run s es; (s2, a2) = run s1 fs in (s2, a1 @ a2))"
  by (induction es arbitrary: s) (auto simp: Let_def split: prod.splits)

lemma run_single: "run s [e] = step s e"
  by (cases "step s e") simp

lemma enqueue_all:
  "isRefreshing s \<Longrightarrow> status e = Some 401 \<Longrightarrow> \<forall>q\<in>set qs. \<not> retry q \<Longrightarrow>
   run s (map (\<lambda>q. ResponseError q e) qs) =
   (s\<lparr>refreshSubscribers := refreshSubscribers s @ qs\<rparr>, [])"
  by (induction qs arbitrary: s) (auto simp: responseInterceptor_def onTokenRefreshed_def)

lemma start_refresh:
  assumes "\<not> isRefreshing s" and "ls_token s = Some t" and "t \<noteq> []"
    and "status e = Some 401" and "\<not> retry r"
  shows "responseInterceptor s r e =
         (s\<lparr>isRefreshing := True, inFlight := inFlight s @ [(r\<lparr>retry := True\<rparr>, t)]\<rparr>,
          [RefreshCall t])"
  using assms by (simp add: responseInterceptor_def Let_def)

lemma refresh_success:
  assumes "inFlight s = (r, t) # rest" and "refreshToken t post me = Inr new"
  shows "step s (RefreshDone post me) =
         (s\<lparr>inFlight := rest, ls_token := Some new, refreshSubscribers := [], isRefreshing := False\<rparr>,
          map (\<lambda>q. Send (withBearer new q)) (refreshSubscribers s) @ [Send (withBearer new r)])"
  using assms
  by (simp add: refreshSettled_def notifySubscribersAboutTokenRefresh_def subscriberCallback_def
      requestInterceptor_same withBearer_def Let_def)

lemma refresh_failure:
  assumes "inFlight s = (r, t) # rest" and "refreshToken t post me = Inl e"
  shows "step s (RefreshDone post me) =
         (s\<lparr>inFlight := rest, isRefreshing := False, ls_token := None\<rparr>, [Reject r e])"
  using assms by (simp add: refreshSettled_def)

lemma single_flight_step: "single_flight s \<Longrightarrow> single_flight (fst (step s e))"
  by (cases e)
    (auto simp: single_flight_def responseInterceptor_def onTokenRefreshed_def Let_def
      refreshSettled_def notifySubscribersAboutTokenRefresh_def
      split: list.splits option.splits sum.splits prod.splits)

lemma single_flight_run: "single_flight s \<Longrightarrow> single_flight (fst (run s es))"
proof (induction es arbitrary: s)
  case Nil
  then show ?case by simp
next
  case (Cons e es)
  obtain s1 a1 where st: "step s e = (s1, a1)" by force
  with Cons.prems single_flight_step [of s e] have "single_flight s1" by simp
  then have "single_flight (fst (run s1 es))" by (rule Cons.IH)
  with st show ?case by (cases "run s1 es") simp
qed

lemma single_flight_initial: "single_flight (initial token)"
  by (simp add: single_flight_def initial_def)

lemma concurrent_failures:
  assumes "\<not> isRefreshing s" and "ls_token s = Some t" and "t \<noteq> []"
    and "status e = Some 401" and "\<not> retry r" and "\<forall>q\<in>set qs. \<not> retry q"
  shows "run s (map (\<lambda>q. ResponseError q e) (r # qs)) =
         (s\<lparr>isRefreshing := True, inFlight := inFlight s @ [(r\<lparr>retry := True\<rparr>, t)],
            refreshSubscribers := refreshSubscribers s @ qs\<rparr>,
          [RefreshCall t])"
proof -
  let ?s1 = "s\<lparr>isRefreshing := True, inFlight := inFlight s @ [(r\<lparr>retry := True\<rparr>, t)]\<rparr>"
  have first: "step s (ResponseError r e) = (?s1, [RefreshCall t])"
    using assms by (simp add: start_refresh)
  have "isRefreshing ?s1" by simp
  then have rest: "run ?s1 (map (\<lambda>q. ResponseError q e) qs) =
      (?s1\<lparr>refreshSubscribers := refreshSubscribers ?s1 @ qs\<rparr>, [])"
    using assms(4,6) by (rule enqueue_all)
  show ?thesis
    using first rest by simp
qed

section \<open>Claims about the restaurant-portal service\<close>

text \<open>
  Claim C6 (request interceptors of the restaurant portal and of the admin portal).
  Attaching the credential is a total function of the stored token and the outgoing
  request and returns nothing but the request: with a token stored (present and not
  empty) the result is the request with \<^verbatim>\<open>Authorization: Bearer\<close> and the token set and every
  other field as it was; with no token stored the request comes back unchanged.
\<close>

theorem requestInterceptor_attaches_token:
  "(ls_token s = Some t \<and> t \<noteq> [] \<longrightarrow>
      requestInterceptor s cfg = cfg\<lparr>authorization := Some (''Bearer '' @ t)\<rparr>)
   \<and> (\<not> truthy (ls_token s) \<longrightarrow> requestInterceptor s cfg = cfg)
   \<and> url (requestInterceptor s cfg) = url cfg
   \<and> body (requestInterceptor s cfg) = body cfg
   \<and> retry (requestInterceptor s cfg) = retry cfg
   \<and> config.more (requestInterceptor s cfg) = config.more cfg
   \<and> (adminToken a = Some t \<and> t \<noteq> [] \<longrightarrow>
      admin_requestInterceptor a cfg = cfg\<lparr>authorization := Some (''Bearer '' @ t)\<rparr>)
   \<and> (\<not> truthy (adminToken a) \<longrightarrow> admin_requestInterceptor a cfg = cfg)
   \<and> url (admin_requestInterceptor a cfg) = url cfg
   \<and> body (admin_requestInterceptor a cfg) = body cfg
   \<and> retry (admin_requestInterceptor a cfg) = retry cfg
   \<and> config.more (admin_requestInterceptor a cfg) = config.more cfg"
  by (cases "ls_token s"; cases "adminToken a")
    (simp_all add: requestInterceptor_def admin_requestInterceptor_def Bearer_def)

theorem requestInterceptor_attaches_token_witness:
  "requestInterceptor (initial (Some ''abc'')) (req ''/orders'') =
     (req ''/orders'')\<lparr>authorization := Some ''Bearer abc''\<rparr>
   \<and> requestInterceptor (initial None) (req ''/orders'') = req ''/orders''
   \<and> requestInterceptor (initial (Some [])) (req ''/orders'') = req ''/orders''
   \<and> admin_requestInterceptor (admin0\<lparr>adminToken := Some ''xyz''\<rparr>) (req ''/users'') =
     (req ''/users'')\<lparr>authorization := Some ''Bearer xyz''\<rparr>
   \<and> admin_requestInterceptor (admin0\<lparr>adminToken := None\<rparr>) (req ''/users'') = req ''/users''"
  using
    requestInterceptor_attaches_token [where s = "initial (Some ''abc'')" and t = "''abc''"
      and cfg = "req ''/orders''" and a = "admin0\<lparr>adminToken := Some ''xyz''\<rparr>"]
    requestInterceptor_attaches_token [where s = "initial None" and t = "''xyz''"
      and cfg = "req ''/users''" and a = "admin0\<lparr>adminToken := Some ''xyz''\<rparr>"]
    requestInterceptor_attaches_token [where s = "initial (Some [])" and t = "''xyz''"
      and cfg = "req ''/orders''" and a = "admin0\<lparr>adminToken := None\<rparr>"]
    requestInterceptor_attaches_token [where s = "initial None" and t = "''xyz''"
      and cfg = "req ''/orders''" and a = "admin0\<lparr>adminToken := None\<rparr>"]
    requestInterceptor_attaches_token [where s = "initial None" and t = "''xyz''"
      and cfg = "req ''/users''" and a = "admin0\<lparr>adminToken := None\<rparr>"]
  by (simp add: initial_def)

text \<open>
  Claim C9 (\<^verbatim>\<open>UserService.refreshToken\<close>, lines 216-237). When the POST to the refresh
  endpoint fails and the fallback \<^verbatim>\<open>getCurrentUser\<close> succeeds, \<^verbatim>\<open>refreshToken\<close> resolves
  with the token it was given. The interceptor then treats the refresh as a success:
  the same token stays stored, the service is no longer refreshing, the queued requests
  and the initiating request are sent again, and nothing is rejected.
\<close>

theorem refreshToken_fallback_keeps_token:
  "refreshToken token (Inl error) (Inr u) = Inr token
   \<and> (inFlight s = (r, token) # rest \<longrightarrow>
        step s (RefreshDone (Inl error) (Inr u)) =
          (s\<lparr>inFlight := rest, ls_token := Some token, refreshSubscribers := [],
             isRefreshing := False\<rparr>,
           map (\<lambda>q. Send (withBearer token q)) (refreshSubscribers s) @
             [Send (withBearer token r)]))"
proof -
  have fallback: "refreshToken token (Inl error) (Inr u) = Inr token"
    by (simp add: refreshToken_def)
  have "inFlight s = (r, token) # rest \<Longrightarrow>
        step s (RefreshDone (Inl error) (Inr u)) =
          (s\<lparr>inFlight := rest, ls_token := Some token, refreshSubscribers := [],
             isRefreshing := False\<rparr>,
           map (\<lambda>q. Send (withBearer token q)) (refreshSubscribers s) @
             [Send (withBearer token r)])"
    by (rule refresh_success [OF _ fallback])
  with fallback show ?thesis by blast
qed

theorem refreshToken_fallback_keeps_token_witness:
  "refreshToken ''old'' (Inl (AxiosError (Some 500) None)) (Inr user0) = Inr ''old''
   \<and> step \<lparr>isRefreshing = True, refreshSubscribers = [req ''/b''], ls_token = Some ''old'',
           inFlight = [((req ''/a'')\<lparr>retry := True\<rparr>, ''old'')]\<rparr>
        (RefreshDone (Inl (AxiosError (Some 500) None)) (Inr user0)) =
      (\<lparr>isRefreshing = False, refreshSubscribers = [], ls_token = Some ''old'', inFlight = []\<rparr>,
       [Send ((req ''/b'')\<lparr>authorization := Some ''Bearer old''\<rparr>),
        Send ((req ''/a'')\<lparr>authorization := Some ''Bearer old'', retry := True\<rparr>)])"
  using refreshToken_fallback_keeps_token [where token = "''old''"
      and error = "AxiosError (Some 500) None" and u = user0
      and s = "\<lparr>isRefreshing = True, refreshSubscribers = [req ''/b''], ls_token = Some ''old'',
           inFlight = [((req ''/a'')\<lparr>retry := True\<rparr>, ''old'')]\<rparr>"
      and r = "(req ''/a'')\<lparr>retry := True\<rparr>" and rest = "[]"]
  by (simp add: withBearer_def Bearer_def refreshToken_def)

text \<open>
  Claim C1, as amended. In the restaurant-portal \<^verbatim>\<open>UserService\<close> at most one refresh is in
  flight after any sequence of events. With a token stored, the first 401 on a request
  not yet retried, seen while no refresh is in flight, issues exactly one refresh call;
  every such failure seen while the service is refreshing is appended to
  \<^verbatim>\<open>refreshSubscribers\<close> and issues no call. When that one refresh succeeds, the queued
  requests and the initiating request are all sent again and the queue is empty.
\<close>

theorem single_refresh_in_flight:
  assumes "t \<noteq> []" and "status e = Some 401" and "\<not> retry r" and "\<forall>q\<in>set qs. \<not> retry q"
  shows "single_flight (fst (run (initial token0) evs))
    \<and> (isRefreshing s \<and> \<not> retry q' \<longrightarrow>
         responseInterceptor s q' e = (s\<lparr>refreshSubscribers := refreshSubscribers s @ [q']\<rparr>, []))
    \<and> run (initial (Some t)) (map (\<lambda>q. ResponseError q e) (r # qs)) =
        (\<lparr>isRefreshing = True, refreshSubscribers = qs, ls_token = Some t,
          inFlight = [(r\<lparr>retry := True\<rparr>, t)]\<rparr>,
         [RefreshCall t])
    \<and> run (initial (Some t)) (map (\<lambda>q. ResponseError q e) (r # qs) @ [RefreshDone (Inr new) me]) =
        (initial (Some new),
         RefreshCall t # map (\<lambda>q. Send (withBearer new q)) qs @
           [Send (withBearer new (r\<lparr>retry := True\<rparr>))])"
proof -
  have inv: "single_flight (fst (run (initial token0) evs))"
    by (rule single_flight_run [OF single_flight_initial])
  have enq: "isRefreshing s \<and> \<not> retry q' \<longrightarrow>
      responseInterceptor s q' e = (s\<lparr>refreshSubscribers := refreshSubscribers s @ [q']\<rparr>, [])"
    using assms(2) by (simp add: responseInterceptor_def onTokenRefreshed_def)
  let ?mid = "\<lparr>isRefreshing = True, refreshSubscribers = qs, ls_token = Some t,
          inFlight = [(r\<lparr>retry := True\<rparr>, t)]\<rparr>"
  have "\<not> isRefreshing (initial (Some t))" and "ls_token (initial (Some t)) = Some t"
    by (simp_all add: initial_def)
  then have "run (initial (Some t)) (map (\<lambda>q. ResponseError q e) (r # qs)) =
      ((initial (Some t))\<lparr>isRefreshing := True,
          inFlight := inFlight (initial (Some t)) @ [(r\<lparr>retry := True\<rparr>, t)],
          refreshSubscribers := refreshSubscribers (initial (Some t)) @ qs\<rparr>,
       [RefreshCall t])"
    using assms by (rule concurrent_failures)
  then have failures: "run (initial (Some t)) (map (\<lambda>q. ResponseError q e) (r # qs)) =
      (?mid, [RefreshCall t])"
    by (simp add: initial_def)
  have "refreshToken t (Inr new) me = Inr new"
    by (simp add: refreshToken_def)
  with refresh_success [of ?mid "r\<lparr>retry := True\<rparr>" t "[]" "Inr new" me new]
  have "step ?mid (RefreshDone (Inr new) me) =
      (initial (Some new),
       map (\<lambda>q. Send (withBearer new q)) qs @ [Send (withBearer new (r\<lparr>retry := True\<rparr>))])"
    by (simp add: initial_def)
  with failures have "run (initial (Some t))
        (map (\<lambda>q. ResponseError q e) (r # qs) @ [RefreshDone (Inr new) me]) =
      (initial (Some new),
       RefreshCall t # map (\<lambda>q. Send (withBearer new q)) qs @
         [Send (withBearer new (r\<lparr>retry := True\<rparr>))])"
    unfolding run_append run_single by simp
  with inv enq failures show ?thesis by blast
qed

theorem single_refresh_in_flight_witness:
  "single_flight (fst (run (initial (Some ''old''))
      [ResponseError (req ''/a'') unauthorized, ResponseError (req ''/b'') unauthorized,
       RefreshDone (Inl (AxiosError (Some 500) None)) (Inl (AxiosError None None)),
       ResponseError (req ''/c'') unauthorized]))
   \<and> responseInterceptor
        \<lparr>isRefreshing = True, refreshSubscribers = [req ''/b''], ls_token = Some ''old'',
          inFlight = [((req ''/a'')\<lparr>retry := True\<rparr>, ''old'')]\<rparr>
        (req ''/c'') unauthorized =
      (\<lparr>isRefreshing = True, refreshSubscribers = [req ''/b'', req ''/c''], ls_token = Some ''old'',
          inFlight = [((req ''/a'')\<lparr>retry := True\<rparr>, ''old'')]\<rparr>, [])
   \<and> run (initial (Some ''old''))
        [ResponseError (req ''/a'') unauthorized, ResponseError (req ''/b'') unauthorized,
         ResponseError (req ''/c'') unauthorized] =
      (\<lparr>isRefreshing = True, refreshSubscribers = [req ''/b'', req ''/c''], ls_token = Some ''old'',
          inFlight = [((req ''/a'')\<lparr>retry := True\<rparr>, ''old'')]\<rparr>,
       [RefreshCall ''old''])
   \<and> run (initial (Some ''old''))
        [ResponseError (req ''/a'') unauthorized, ResponseError (req ''/b'') unauthorized,
         ResponseError (req ''/c'') unauthorized, RefreshDone (Inr ''new'') (Inr user0)] =
      (initial (Some ''new''),
       [RefreshCall ''old'',
        Send ((req ''/b'')\<lparr>authorization := Some ''Bearer new''\<rparr>),
        Send ((req ''/c'')\<lparr>authorization := Some ''Bearer new''\<rparr>),
        Send ((req ''/a'')\<lparr>authorization := Some ''Bearer new'', retry := True\<rparr>)])"
proof -
  have "''old'' \<noteq> []" and "status unauthorized = Some 401" and "\<not> retry (req ''/a'')"
    and "\<forall>q\<in>set [req ''/b'', req ''/c'']. \<not> retry q"
    by simp_all
  from single_refresh_in_flight [OF this, where ?token0.0 = "Some ''old''"
      and evs = "[ResponseError (req ''/a'') unauthorized, ResponseError (req ''/b'') unauthorized,
       RefreshDone (Inl (AxiosError (Some 500) None)) (Inl (AxiosError None None)),
       ResponseError (req ''/c'') unauthorized]"
      and s = "\<lparr>isRefreshing = True, refreshSubscribers = [req ''/b''], ls_token = Some ''old'',
          inFlight = [((req ''/a'')\<lparr>retry := True\<rparr>, ''old'')]\<rparr>"
      and q' = "req ''/c''" and new = "''new''" and me = "Inr user0"]
  show ?thesis
    by (simp add: withBearer_def Bearer_def)
qed

text \<open>
  The admin portal has no such guard (part_000, lines 105-111): two requests that fail
  with 401 one after the other, before any refresh has settled, start two refresh calls.
\<close>

theorem admin_refresh_per_failure_counterexample:
  "admin_run admin0
      [AResponseError (req ''/a'') unauthorized,
       AResponseError (req ''/b'') unauthorized] =
     (admin0\<lparr>refreshPending := [req ''/a'', req ''/b'']\<rparr>, [ARefreshCall ''r0'', ARefreshCall ''r0''])
   \<and> \<not> length (refreshPending (fst (admin_run admin0
      [AResponseError (req ''/a'') unauthorized,
       AResponseError (req ''/b'') unauthorized]))) \<le> 1"
  by (simp add: admin_responseInterceptor_def admin_refreshToken_begin_def storage_get_def)

text \<open>
  Claim C2, as amended. Whenever \<^verbatim>\<open>refreshToken\<close> rejects (the POST and the fallback
  \<^verbatim>\<open>getCurrentUser\<close> both fail), the service leaves the refreshing state with no token
  stored, which is \<open>NoSession\<close>, and the error of the POST is what the initiating caller's
  promise is rejected with. The same holds, with the error \<^verbatim>\<open>No token found\<close>, when a 401
  arrives and no token is stored.
\<close>

theorem rejected_refresh_ends_session:
  "(inFlight s = (r, t) # rest \<longrightarrow>
      refreshToken t (Inl e) (Inl e') = Inl e
      \<and> step s (RefreshDone (Inl e) (Inl e')) =
          (s\<lparr>inFlight := rest, isRefreshing := False, ls_token := None\<rparr>, [Reject r e])
      \<and> phase_of (fst (step s (RefreshDone (Inl e) (Inl e')))) = NoSession
      \<and> ls_token (fst (step s (RefreshDone (Inl e) (Inl e')))) = None)
   \<and> (\<not> isRefreshing s \<and> \<not> truthy (ls_token s) \<and> status e = Some 401 \<and> \<not> retry r \<longrightarrow>
      responseInterceptor s r e =
        (s\<lparr>isRefreshing := False, ls_token := None\<rparr>,
         [Reject (r\<lparr>retry := True\<rparr>) (Error ''No token found'')])
      \<and> phase_of (fst (responseInterceptor s r e)) = NoSession)"
proof -
  have rejects: "refreshToken t (Inl e) (Inl e') = Inl e"
    by (simp add: refreshToken_def)
  have settle: "inFlight s = (r, t) # rest \<Longrightarrow>
      step s (RefreshDone (Inl e) (Inl e')) =
        (s\<lparr>inFlight := rest, isRefreshing := False, ls_token := None\<rparr>, [Reject r e])"
    by (rule refresh_failure [OF _ rejects])
  have noToken: "\<not> isRefreshing s \<Longrightarrow> \<not> truthy (ls_token s) \<Longrightarrow> status e = Some 401 \<Longrightarrow>
      \<not> retry r \<Longrightarrow>
      responseInterceptor s r e =
        (s\<lparr>isRefreshing := False, ls_token := None\<rparr>,
         [Reject (r\<lparr>retry := True\<rparr>) (Error ''No token found'')])"
    by (cases "ls_token s") (simp_all add: responseInterceptor_def Let_def)
  show ?thesis
    using rejects settle noToken by (auto simp: phase_of_def)
qed

theorem rejected_refresh_ends_session_witness:
  "step \<lparr>isRefreshing = True, refreshSubscribers = [], ls_token = Some ''old'',
          inFlight = [((req ''/a'')\<lparr>retry := True\<rparr>, ''old'')]\<rparr>
      (RefreshDone (Inl (AxiosError (Some 500) None)) (Inl (AxiosError (Some 403) None))) =
     (\<lparr>isRefreshing = False, refreshSubscribers = [], ls_token = None, inFlight = []\<rparr>,
      [Reject ((req ''/a'')\<lparr>retry := True\<rparr>) (AxiosError (Some 500) None)])
   \<and> phase_of (fst (step \<lparr>isRefreshing = True, refreshSubscribers = [], ls_token = Some ''old'',
          inFlight = [((req ''/a'')\<lparr>retry := True\<rparr>, ''old'')]\<rparr>
      (RefreshDone (Inl (AxiosError (Some 500) None)) (Inl (AxiosError (Some 403) None))))) = NoSession
   \<and> responseInterceptor (initial None) (req ''/a'') unauthorized =
     (initial None, [Reject ((req ''/a'')\<lparr>retry := True\<rparr>) (Error ''No token found'')])"
  using
    rejected_refresh_ends_session [where
      s = "\<lparr>isRefreshing = True, refreshSubscribers = [], ls_token = Some ''old'',
          inFlight = [((req ''/a'')\<lparr>retry := True\<rparr>, ''old'')]\<rparr>"
      and r = "(req ''/a'')\<lparr>retry := True\<rparr>" and t = "''old''" and rest = "[]"
      and e = "AxiosError (Some 500) None" and e' = "AxiosError (Some 403) None"]
    rejected_refresh_ends_session [where s = "initial None" and r = "req ''/a''"
      and t = "''old''" and rest = "[]" and e = unauthorized and e' = "AxiosError None None"]
  by (simp add: initial_def refreshToken_def phase_of_def)

text \<open>
  The claim as stated fails at a failed POST whose fallback succeeds: the refresh call
  has failed, yet the session stays active with its token stored, the queued request and
  the initiating request are sent again, and no error reaches any caller.
\<close>

theorem failed_refresh_call_keeps_session_counterexample:
  "step \<lparr>isRefreshing = True, refreshSubscribers = [req ''/b''], ls_token = Some ''old'',
          inFlight = [((req ''/a'')\<lparr>retry := True\<rparr>, ''old'')]\<rparr>
      (RefreshDone (Inl (AxiosError (Some 500) None)) (Inr user0)) =
     (\<lparr>isRefreshing = False, refreshSubscribers = [], ls_token = Some ''old'', inFlight = []\<rparr>,
      [Send ((req ''/b'')\<lparr>authorization := Some ''Bearer old''\<rparr>),
       Send ((req ''/a'')\<lparr>authorization := Some ''Bearer old'', retry := True\<rparr>)])
   \<and> phase_of (fst (step \<lparr>isRefreshing = True, refreshSubscribers = [req ''/b''],
          ls_token = Some ''old'', inFlight = [((req ''/a'')\<lparr>retry := True\<rparr>, ''old'')]\<rparr>
      (RefreshDone (Inl (AxiosError (Some 500) None)) (Inr user0)))) = Active"
  by (simp add: refreshToken_def refreshSettled_def notifySubscribersAboutTokenRefresh_def
      subscriberCallback_def requestInterceptor_def Bearer_def phase_of_def)

text \<open>
  Claim C3, as amended. In the restaurant-portal \<^verbatim>\<open>UserService\<close> a request is marked
  \<^verbatim>\<open>_retry\<close> at the moment it starts a refresh, before the refresh call is issued. When that
  refresh succeeds the request is sent again once, still marked. An error response to a
  marked request, 401 included, is rejected to its caller with the state untouched: no
  refresh call, no queueing, no replay. Nothing is said here about what happens to a
  request before it is marked.
\<close>

theorem initiating_request_retried_once:
  assumes "\<not> isRefreshing s" and "inFlight s = []" and "ls_token s = Some t" and "t \<noteq> []"
    and "status e = Some 401" and "\<not> retry r"
  shows "(retry c \<longrightarrow> responseInterceptor s' c e' = (s', [Reject c e']))
    \<and> responseInterceptor s r e =
        (s\<lparr>isRefreshing := True, inFlight := [(r\<lparr>retry := True\<rparr>, t)]\<rparr>, [RefreshCall t])
    \<and> run s [ResponseError r e, RefreshDone (Inr new) me,
              ResponseError (withBearer new (r\<lparr>retry := True\<rparr>)) e] =
        (s\<lparr>inFlight := [], ls_token := Some new, refreshSubscribers := [], isRefreshing := False\<rparr>,
         RefreshCall t # map (\<lambda>q. Send (withBearer new q)) (refreshSubscribers s) @
           [Send (withBearer new (r\<lparr>retry := True\<rparr>)),
            Reject (withBearer new (r\<lparr>retry := True\<rparr>)) e])"
proof -
  have marked: "retry c \<longrightarrow> responseInterceptor s' c e' = (s', [Reject c e'])"
    by (simp add: responseInterceptor_def)
  let ?s1 = "s\<lparr>isRefreshing := True, inFlight := inFlight s @ [(r\<lparr>retry := True\<rparr>, t)]\<rparr>"
  let ?s2 = "s\<lparr>inFlight := [], ls_token := Some new, refreshSubscribers := [],
      isRefreshing := False\<rparr>"
  let ?r = "withBearer new (r\<lparr>retry := True\<rparr>)"
  have first: "step s (ResponseError r e) = (?s1, [RefreshCall t])"
    using assms by (simp add: start_refresh)
  then have starts: "responseInterceptor s r e =
      (s\<lparr>isRefreshing := True, inFlight := [(r\<lparr>retry := True\<rparr>, t)]\<rparr>, [RefreshCall t])"
    using assms(2) by simp
  have "refreshToken t (Inr new) me = Inr new"
    by (simp add: refreshToken_def)
  with refresh_success [of ?s1 "r\<lparr>retry := True\<rparr>" t "[]" "Inr new" me new] assms(2)
  have second: "step ?s1 (RefreshDone (Inr new) me) =
      (?s2, map (\<lambda>q. Send (withBearer new q)) (refreshSubscribers s) @ [Send ?r])"
    by simp
  have "retry ?r" by (simp add: withBearer_def)
  then have third: "step ?s2 (ResponseError ?r e) = (?s2, [Reject ?r e])"
    by (simp add: responseInterceptor_def)
  have "run s [ResponseError r e, RefreshDone (Inr new) me, ResponseError ?r e] =
      (?s2, RefreshCall t # map (\<lambda>q. Send (withBearer new q)) (refreshSubscribers s) @
           [Send ?r, Reject ?r e])"
    using first second third by simp
  with marked starts show ?thesis by blast
qed

theorem initiating_request_retried_once_witness:
  "responseInterceptor (initial (Some ''new''))
      ((req ''/a'')\<lparr>authorization := Some ''Bearer new'', retry := True\<rparr>) unauthorized =
     (initial (Some ''new''),
      [Reject ((req ''/a'')\<lparr>authorization := Some ''Bearer new'', retry := True\<rparr>) unauthorized])
   \<and> responseInterceptor (initial (Some ''old'')) (req ''/a'') unauthorized =
     (\<lparr>isRefreshing = True, refreshSubscribers = [], ls_token = Some ''old'',
        inFlight = [((req ''/a'')\<lparr>retry := True\<rparr>, ''old'')]\<rparr>, [RefreshCall ''old''])
   \<and> run (initial (Some ''old''))
      [ResponseError (req ''/a'') unauthorized, RefreshDone (Inr ''new'') (Inr user0),
       ResponseError ((req ''/a'')\<lparr>authorization := Some ''Bearer new'', retry := True\<rparr>)
         unauthorized] =
     (initial (Some ''new''),
      [RefreshCall ''old'',
       Send ((req ''/a'')\<lparr>authorization := Some ''Bearer new'', retry := True\<rparr>),
       Reject ((req ''/a'')\<lparr>authorization := Some ''Bearer new'', retry := True\<rparr>) unauthorized])"
proof -
  have "\<not> isRefreshing (initial (Some ''old''))" and "inFlight (initial (Some ''old'')) = []"
    and "ls_token (initial (Some ''old'')) = Some ''old''" and "''old'' \<noteq> []"
    and "status unauthorized = Some 401" and "\<not> retry (req ''/a'')"
    by (simp_all add: initial_def)
  note inst = initiating_request_retried_once [OF this, where s' = "initial (Some ''new'')"
      and c = "(req ''/a'')\<lparr>authorization := Some ''Bearer new'', retry := True\<rparr>"
      and e' = unauthorized and new = "''new''" and me = "Inr user0"]
  have marked: "responseInterceptor (initial (Some ''new''))
      ((req ''/a'')\<lparr>authorization := Some ''Bearer new'', retry := True\<rparr>) unauthorized =
     (initial (Some ''new''),
      [Reject ((req ''/a'')\<lparr>authorization := Some ''Bearer new'', retry := True\<rparr>) unauthorized])"
    using inst [THEN conjunct1] by simp
  have starts: "responseInterceptor (initial (Some ''old'')) (req ''/a'') unauthorized =
     (\<lparr>isRefreshing = True, refreshSubscribers = [], ls_token = Some ''old'',
        inFlight = [((req ''/a'')\<lparr>retry := True\<rparr>, ''old'')]\<rparr>, [RefreshCall ''old''])"
    using inst [THEN conjunct2, THEN conjunct1] by (simp add: initial_def)
  have runs: "run (initial (Some ''old''))
      [ResponseError (req ''/a'') unauthorized, RefreshDone (Inr ''new'') (Inr user0),
       ResponseError ((req ''/a'')\<lparr>authorization := Some ''Bearer new'', retry := True\<rparr>)
         unauthorized] =
     (initial (Some ''new''),
      [RefreshCall ''old'',
       Send ((req ''/a'')\<lparr>authorization := Some ''Bearer new'', retry := True\<rparr>),
       Reject ((req ''/a'')\<lparr>authorization := Some ''Bearer new'', retry := True\<rparr>) unauthorized])"
    using inst [THEN conjunct2, THEN conjunct2]
    by (simp add: withBearer_def Bearer_def initial_def)
  from marked starts runs show ?thesis by (intro conjI)
qed

text \<open>
  The admin portal keeps no such mark (part_000, lines 105-111): a request that fails
  with 401, is sent again after a refresh, and fails with 401 again is sent a second time
  after a second refresh.
\<close>

theorem admin_request_retried_twice_counterexample:
  "admin_run admin0
      [AResponseError (req ''/a'') unauthorized,
       ARefreshDone (Inr \<lparr>r_token = Some ''t1'', r_refreshToken = Some ''r1'', r_user = None\<rparr>),
       AResponseError ((req ''/a'')\<lparr>authorization := Some ''Bearer t1''\<rparr>) unauthorized,
       ARefreshDone (Inr \<lparr>r_token = Some ''t2'', r_refreshToken = Some ''r2'', r_user = None\<rparr>)] =
     (admin0\<lparr>adminToken := Some ''t2'', refreshTokenItem := Some (Parsed ''r2'')\<rparr>,
      [ARefreshCall ''r0'',
       ASend ((req ''/a'')\<lparr>authorization := Some ''Bearer t1''\<rparr>),
       ARefreshCall ''r1'',
       ASend ((req ''/a'')\<lparr>authorization := Some ''Bearer t2''\<rparr>)])"
  by (simp add: admin_responseInterceptor_def admin_refreshToken_begin_def storage_get_def
      admin_refreshSettled_def storage_set_def admin_requestInterceptor_def Bearer_def)

text \<open>
  Claim C4 (\<^verbatim>\<open>notifySubscribersAboutTokenRefresh\<close> and the success branch of the response
  interceptor). Requests that fail with 401 while a refresh is in flight join the queue
  in the order they arrive. When the refresh resolves with a token, every queued request
  is sent again carrying \<^verbatim>\<open>Bearer\<close> and that token, in the order of the queue, before the
  request that started the refresh; the queue is then empty. What becomes of each replay
  is a later event of its own.
\<close>

theorem queued_requests_replayed_in_order:
  assumes "isRefreshing s" and "inFlight s = (r, t) # rest" and "status e = Some 401"
    and "\<forall>q\<in>set qs. \<not> retry q"
  shows "run s (map (\<lambda>q. ResponseError q e) qs @ [RefreshDone (Inr new) me]) =
     (s\<lparr>inFlight := rest, ls_token := Some new, refreshSubscribers := [], isRefreshing := False\<rparr>,
      map (\<lambda>q. Send (q\<lparr>authorization := Some (''Bearer '' @ new)\<rparr>)) (refreshSubscribers s @ qs) @
        [Send (r\<lparr>authorization := Some (''Bearer '' @ new)\<rparr>)])"
proof -
  let ?s1 = "s\<lparr>refreshSubscribers := refreshSubscribers s @ qs\<rparr>"
  have queued: "run s (map (\<lambda>q. ResponseError q e) qs) = (?s1, [])"
    using assms(1,3,4) by (rule enqueue_all)
  have "refreshToken t (Inr new) me = Inr new"
    by (simp add: refreshToken_def)
  with refresh_success [of ?s1 r t rest "Inr new" me new] assms(2)
  have "step ?s1 (RefreshDone (Inr new) me) =
      (s\<lparr>inFlight := rest, ls_token := Some new, refreshSubscribers := [], isRefreshing := False\<rparr>,
       map (\<lambda>q. Send (withBearer new q)) (refreshSubscribers s @ qs) @ [Send (withBearer new r)])"
    by simp
  with queued show ?thesis
    unfolding run_append run_single by (simp add: withBearer_def Bearer_def)
qed

theorem queued_requests_replayed_in_order_witness:
  "run \<lparr>isRefreshing = True, refreshSubscribers = [req ''/b''], ls_token = Some ''old'',
          inFlight = [((req ''/a'')\<lparr>retry := True\<rparr>, ''old'')]\<rparr>
      [ResponseError (req ''/c'') unauthorized, ResponseError (req ''/d'') unauthorized,
       RefreshDone (Inr ''new'') (Inr user0)] =
     (\<lparr>isRefreshing = False, refreshSubscribers = [], ls_token = Some ''new'', inFlight = []\<rparr>,
      [Send ((req ''/b'')\<lparr>authorization := Some ''Bearer new''\<rparr>),
       Send ((req ''/c'')\<lparr>authorization := Some ''Bearer new''\<rparr>),
       Send ((req ''/d'')\<lparr>authorization := Some ''Bearer new''\<rparr>),
       Send ((req ''/a'')\<lparr>authorization := Some ''Bearer new'', retry := True\<rparr>)])"
proof -
  let ?s = "\<lparr>isRefreshing = True, refreshSubscribers = [req ''/b''], ls_token = Some ''old'',
          inFlight = [((req ''/a'')\<lparr>retry := True\<rparr>, ''old'')]\<rparr>"
  have "isRefreshing ?s" and "inFlight ?s = ((req ''/a'')\<lparr>retry := True\<rparr>, ''old'') # []"
    and "status unauthorized = Some 401" and "\<forall>q\<in>set [req ''/c'', req ''/d'']. \<not> retry q"
    by simp_all
  from queued_requests_replayed_in_order [OF this, where new = "''new''" and me = "Inr user0"]
  show ?thesis by simp
qed

section \<open>Further facts about the restaurant-portal queue\<close>

text \<open>
  When \<^verbatim>\<open>refreshToken\<close> rejects, the \<^verbatim>\<open>catch\<close> block (lines 170-177) does not touch
  \<^verbatim>\<open>refreshSubscribers\<close>: the queued requests are neither sent again nor rejected, and stay
  queued.
\<close>

lemma rejected_refresh_leaves_queue:
  assumes "inFlight s = (r, t) # rest"
  shows "refreshSubscribers (fst (step s (RefreshDone (Inl e) (Inl e')))) = refreshSubscribers s
    \<and> snd (step s (RefreshDone (Inl e) (Inl e'))) = [Reject r e]"
proof -
  have "refreshToken t (Inl e) (Inl e') = Inl e"
    by (simp add: refreshToken_def)
  with assms have "step s (RefreshDone (Inl e) (Inl e')) =
      (s\<lparr>inFlight := rest, isRefreshing := False, ls_token := None\<rparr>, [Reject r e])"
    by (rule refresh_failure)
  then show ?thesis by simp
qed

text \<open>
  A request that joins the queue is not marked \<^verbatim>\<open>_retry\<close> (lines 139-147). Sent again
  after the refresh and failing with 401 once more, it starts a refresh of its own and
  is sent a second time; only then is its failure passed to the caller.
\<close>

lemma queued_request_sent_twice:
  "run (initial (Some ''old''))
      [ResponseError (req ''/a'') unauthorized,
       ResponseError (req ''/b'') unauthorized,
       RefreshDone (Inr ''new'') (Inr user0),
       ResponseError ((req ''/b'')\<lparr>authorization := Some ''Bearer new''\<rparr>) unauthorized,
       RefreshDone (Inr ''newer'') (Inr user0),
       ResponseError ((req ''/b'')\<lparr>authorization := Some ''Bearer newer'', retry := True\<rparr>)
         unauthorized] =
     (initial (Some ''newer''),
      [RefreshCall ''old'',
       Send ((req ''/b'')\<lparr>authorization := Some ''Bearer new''\<rparr>),
       Send ((req ''/a'')\<lparr>authorization := Some ''Bearer new'', retry := True\<rparr>),
       RefreshCall ''new'',
       Send ((req ''/b'')\<lparr>authorization := Some ''Bearer newer'', retry := True\<rparr>),
       Reject ((req ''/b'')\<lparr>authorization := Some ''Bearer newer'', retry := True\<rparr>) unauthorized])"
  by (simp add: initial_def responseInterceptor_def onTokenRefreshed_def refreshToken_def
      refreshSettled_def notifySubscribersAboutTokenRefresh_def subscriberCallback_def
      requestInterceptor_def Bearer_def)

section \<open>Helper facts about the admin portal\<close>

lemma admin_clear_noSession: "admin_noSession (admin_clear s)"
  by (simp add: admin_noSession_def admin_clear_def)

lemma admin_clear_idle: "admin_noSession s \<Longrightarrow> admin_clear s = s"
  by (cases s) (simp add: admin_noSession_def admin_clear_def)

lemma admin_axios_answered:
  "srv k (admin_requestInterceptor s cfg) = Inr data \<Longrightarrow>
   admin_axios (Suc n) api srv (s, k) cfg = Some ((s, Suc k), Inr data)"
  by simp

lemma admin_axios_failed:
  "srv k (admin_requestInterceptor s cfg) = Inl error \<Longrightarrow> status error \<noteq> Some 401 \<Longrightarrow>
   admin_axios (Suc n) api srv (s, k) cfg = Some ((s, Suc k), Inl error)"
  by simp

lemma admin_logout_idle:
  assumes "admin_noSession s"
  shows "admin_logout (Suc n) api srv (s, k) = Some (s, k)"
proof -
  from assms have "adminToken s = None"
    by (simp add: admin_noSession_def)
  with assms show ?thesis
    by (simp add: admin_clear_idle)
qed

lemma admin_refreshToken_idle:
  assumes "admin_noSession s"
  shows "admin_refreshToken (Suc (Suc n)) api srv (s, k) =
         Some ((s, k), Inl (Error ''No refresh token found''))"
proof -
  have "admin_refreshToken_begin s = Inl (Error ''No refresh token found'')"
    using assms by (simp add: admin_refreshToken_begin_def storage_get_def admin_noSession_def)
  moreover have "admin_logout (Suc n) api srv (s, k) = Some (s, k)"
    using assms by (rule admin_logout_idle)
  ultimately show ?thesis by simp
qed

lemma admin_axios_unauthorized_idle:
  assumes "admin_noSession s" and "srv k (admin_requestInterceptor s cfg) = Inl error"
    and "status error = Some 401"
  shows "admin_axios (Suc (Suc (Suc n))) api srv (s, k) cfg =
         Some ((s, Suc k), Inl (Error ''No refresh token found''))"
proof -
  have "admin_refreshToken (Suc (Suc n)) api srv (s, Suc k) =
        Some ((s, Suc k), Inl (Error ''No refresh token found''))"
    using assms(1) by (rule admin_refreshToken_idle)
  moreover have "admin_logout (Suc (Suc n)) api srv (s, Suc k) = Some (s, Suc k)"
    using assms(1) by (rule admin_logout_idle)
  ultimately show ?thesis
    using assms(2,3) by (simp del: admin_refreshToken.simps admin_logout.simps)
qed

text \<open>
  With a token stored and a server that answers every request with 401, none of the
  three functions returns, whatever the depth allowed: the handler calls
  \<^verbatim>\<open>refreshToken\<close>, which either fails at once and calls \<^verbatim>\<open>logout\<close>, or posts and is answered
  401 in turn; \<^verbatim>\<open>logout\<close> finds the token still stored and posts again.
\<close>

lemma admin_loop_on_401:
  assumes "status error = Some 401"
  shows "truthy (adminToken s) \<Longrightarrow>
         admin_logout n api (\<lambda>k cfg. Inl error) (s, k) = None
         \<and> admin_axios n api (\<lambda>k cfg. Inl error) (s, k) cfg = None
         \<and> admin_refreshToken n api (\<lambda>k cfg. Inl error) (s, k) = None"
proof (induction n arbitrary: s k cfg)
  case 0
  show ?case by simp
next
  case (Suc n)
  from Suc.prems obtain t where token: "adminToken s = Some t" "t \<noteq> []"
    by (cases "adminToken s") auto
  have out: "admin_logout (Suc n) api (\<lambda>k cfg. Inl error) (s, k) = None"
    using token Suc.IH [OF Suc.prems, of k "logoutRequest api t"] by simp
  have ax: "admin_axios (Suc n) api (\<lambda>k cfg. Inl error) (s, k) cfg = None"
    using assms Suc.IH [OF Suc.prems, of "Suc k" cfg] by simp
  have rt: "admin_refreshToken (Suc n) api (\<lambda>k cfg. Inl error) (s, k) = None"
  proof (cases "admin_refreshToken_begin s")
    case (Inl e)
    with Suc.IH [OF Suc.prems, of k cfg] show ?thesis by simp
  next
    case (Inr stored)
    with Suc.IH [OF Suc.prems, of k "refreshRequest api stored"] show ?thesis by simp
  qed
  from out ax rt show ?case by blast
qed

lemma admin_logout_returns_cleared:
  "admin_logout n api srv w = Some w' \<Longrightarrow> admin_noSession (fst w')"
  by (cases n) (auto simp: admin_clear_noSession split: option.splits if_splits)

text \<open>
  \<^verbatim>\<open>logout\<close> does return, with the session cleared, when no token is stored (it posts
  nothing) and when the server answers its POST with success or with an error other
  than 401.
\<close>

lemma admin_logout_settles:
  "(\<not> truthy (adminToken s) \<longrightarrow> admin_logout (Suc n) api srv (s, k) = Some (admin_clear s, k))
   \<and> (adminToken s = Some t \<and> t \<noteq> [] \<and>
        srv k (admin_requestInterceptor s (logoutRequest api t)) = Inr data \<longrightarrow>
        admin_logout (Suc (Suc n)) api srv (s, k) = Some (admin_clear s, Suc k))
   \<and> (adminToken s = Some t \<and> t \<noteq> [] \<and>
        srv k (admin_requestInterceptor s (logoutRequest api t)) = Inl error \<and>
        status error \<noteq> Some 401 \<longrightarrow>
        admin_logout (Suc (Suc n)) api srv (s, k) = Some (admin_clear s, Suc k))"
  by (cases "adminToken s") auto

lemma customer_logout_clears: "noSession (logout s)"
  by (simp add: noSession_def logout_def)

section \<open>Claims about logging in, logging out and the session timer\<close>

text \<open>
  Claim C5 (\<^verbatim>\<open>logout\<close> of the admin portal, part_000 lines 214-231, against \<^verbatim>\<open>logout\<close> of the
  customer portal, AuthContext.tsx lines 154-159). The claim is that \<^verbatim>\<open>logout\<close> always ends
  with no session, the local state being cleared at once whatever becomes of the call to
  the server. The customer portal does so (\<open>customer_logout_clears\<close>). The admin portal
  clears in a \<^verbatim>\<open>finally\<close> block behind the awaited POST, and that POST goes through the
  response interceptor: with the token and refresh token of \<open>admin0\<close> stored and a server
  that answers 401, \<^verbatim>\<open>logout\<close> never returns and nothing is cleared.
\<close>

theorem admin_logout_never_returns_on_401:
  "\<not> (\<exists>n w. admin_logout n api0 (\<lambda>k cfg. Inl unauthorized) (admin0, 0) = Some w)"
proof -
  have "status unauthorized = Some 401" and "truthy (adminToken admin0)"
    by simp_all
  then have "admin_logout n api0 (\<lambda>k cfg. Inl unauthorized) (admin0, 0) = None" for n
    using admin_loop_on_401 [of unauthorized admin0 n api0 0] by blast
  then show ?thesis by simp
qed

text \<open>
  Claim C7 (\<^verbatim>\<open>checkTokenExpiration\<close>, AuthContext.tsx lines 71-92). The timer value is
  absent exactly when there is no token or decoding the payload throws. A value that is
  present is 0 or greater than 0, never below: it is the floor of the thousandth of the
  expiry time less the current time, both in milliseconds, when that is greater than 0,
  and 0 otherwise. This holds for whatever the browser's arithmetic makes of the
  numbers.
\<close>

theorem checkTokenExpiration_clamped:
  "(checkTokenExpiration js payloadExp now token = None \<longleftrightarrow>
      \<not> truthy token \<or> (\<exists>t. token = Some t \<and> payloadExp (payloadSegment t) = None))
   \<and> (\<forall>remaining. checkTokenExpiration js payloadExp now token = Some remaining \<longrightarrow>
        remaining = js_lit js 0 \<or> js_greater js remaining (js_lit js 0))
   \<and> (t \<noteq> [] \<and> payloadExp (payloadSegment t) = Some seconds \<longrightarrow>
        checkTokenExpiration js payloadExp now (Some t) =
          Some (let remaining =
                      js_floor js (js_divide js
                        (js_minus js (js_times js seconds (js_lit js 1000)) now) (js_lit js 1000))
                in if js_greater js remaining (js_lit js 0) then remaining else js_lit js 0))"
  by (cases token)
    (auto simp: checkTokenExpiration_def Let_def split: option.splits)

theorem checkTokenExpiration_clamped_witness:
  "checkTokenExpiration exact_numbers
      (\<lambda>segment. if segment = ''eyJleHAiOjEwMH0'' then Some (Num 100) else None)
      (Num 40500) (Some ''h.eyJleHAiOjEwMH0.s'') = Some (Num 59)
   \<and> checkTokenExpiration exact_numbers
      (\<lambda>segment. if segment = ''eyJleHAiOjEwMH0'' then Some (Num 100) else None)
      (Num 100001) (Some ''h.eyJleHAiOjEwMH0.s'') = Some (Num 0)
   \<and> checkTokenExpiration exact_numbers
      (\<lambda>segment. if segment = ''eyJleHAiOjEwMH0'' then Some (Num (201 / 2)) else None)
      (Num 40500) (Some ''h.eyJleHAiOjEwMH0.s'') = Some (Num 60)
   \<and> checkTokenExpiration exact_numbers
      (\<lambda>segment. if segment = ''eyJleHAiOjEwMH0'' then Some NaN else None)
      (Num 40500) (Some ''h.eyJleHAiOjEwMH0.s'') = Some (Num 0)
   \<and> checkTokenExpiration exact_numbers
      (\<lambda>segment. if segment = ''eyJleHAiOjEwMH0'' then Some (Num 100) else None)
      (Num 40500) (Some ''garbage'') = None
   \<and> checkTokenExpiration exact_numbers
      (\<lambda>segment. if segment = ''eyJleHAiOjEwMH0'' then Some (Num 100) else None)
      (Num 40500) None = None"
proof -
  let ?decode = "\<lambda>v segment. if segment = ''eyJleHAiOjEwMH0'' then Some v else None"
  have segment: "payloadSegment ''h.eyJleHAiOjEwMH0.s'' = ''eyJleHAiOjEwMH0''"
    and garbage: "payloadSegment ''garbage'' = ''undefined''"
    by (simp_all add: payloadSegment_def)
  have later: "checkTokenExpiration exact_numbers (?decode (Num 100)) (Num 40500)
      (Some ''h.eyJleHAiOjEwMH0.s'') = Some (Num 59)"
    using checkTokenExpiration_clamped [where js = exact_numbers
        and t = "''h.eyJleHAiOjEwMH0.s''" and seconds = "Num 100" and now = "Num 40500"
        and payloadExp = "?decode (Num 100)", THEN conjunct2, THEN conjunct2]
    by (simp add: segment exact_numbers_def) linarith
  have passed: "checkTokenExpiration exact_numbers (?decode (Num 100)) (Num 100001)
      (Some ''h.eyJleHAiOjEwMH0.s'') = Some (Num 0)"
    using checkTokenExpiration_clamped [where js = exact_numbers
        and t = "''h.eyJleHAiOjEwMH0.s''" and seconds = "Num 100" and now = "Num 100001"
        and payloadExp = "?decode (Num 100)", THEN conjunct2, THEN conjunct2]
    by (simp add: segment exact_numbers_def)
  have fraction: "checkTokenExpiration exact_numbers (?decode (Num (201 / 2))) (Num 40500)
      (Some ''h.eyJleHAiOjEwMH0.s'') = Some (Num 60)"
    using checkTokenExpiration_clamped [where js = exact_numbers
        and t = "''h.eyJleHAiOjEwMH0.s''" and seconds = "Num (201 / 2)" and now = "Num 40500"
        and payloadExp = "?decode (Num (201 / 2))", THEN conjunct2, THEN conjunct2]
    by (simp add: segment exact_numbers_def)
  have nan: "checkTokenExpiration exact_numbers (?decode NaN) (Num 40500)
      (Some ''h.eyJleHAiOjEwMH0.s'') = Some (Num 0)"
    using checkTokenExpiration_clamped [where js = exact_numbers
        and t = "''h.eyJleHAiOjEwMH0.s''" and seconds = NaN and now = "Num 40500"
        and payloadExp = "?decode NaN", THEN conjunct2, THEN conjunct2]
    by (simp add: segment exact_numbers_def)
  have undecodable: "checkTokenExpiration exact_numbers (?decode (Num 100)) (Num 40500)
      (Some ''garbage'') = None"
    using checkTokenExpiration_clamped [where js = exact_numbers and now = "Num 40500"
        and token = "Some ''garbage''" and payloadExp = "?decode (Num 100)", THEN conjunct1]
    by (simp add: garbage)
  have absent: "checkTokenExpiration exact_numbers (?decode (Num 100)) (Num 40500) None = None"
    using checkTokenExpiration_clamped [where js = exact_numbers and now = "Num 40500"
        and token = None and payloadExp = "?decode (Num 100)", THEN conjunct1]
    by simp
  from later passed fraction nan undecodable absent show ?thesis by (intro conjI)
qed

text \<open>
  Claim C8, as amended. A login that succeeds installs the session: the customer portal
  takes user and token from the response and stores the token; the admin portal, given a
  token in the response, stores token, refresh token and user and sets the authenticated
  flag. A login that fails installs nothing: in the customer portal user, token and
  stored token stay as they were; in the admin portal the state stays as it was when the
  response carries no token or is an error other than 401, and a client without a
  session is left without one by every error, 401 included. Failure is reported without
  telling the kinds of error apart: the customer portal returns \<^verbatim>\<open>false\<close> and records the
  server's message, or \<^verbatim>\<open>Login failed\<close> when there is none; the admin portal throws one and
  the same error, \<^verbatim>\<open>Invalid email or password\<close>, for every failure.
\<close>

theorem login_installs_session_or_nothing:
  "login s (Inr data) =
     (s\<lparr>c_user := r_user data, c_token := r_token data,
        c_stored := Some (case r_token data of None \<Rightarrow> ''undefined'' | Some t \<Rightarrow> t),
        c_isLoading := False, c_error := None\<rparr>, True)
   \<and> login s (Inl error) =
     (s\<lparr>c_isLoading := False,
        c_error := Some (case message error of
                           None \<Rightarrow> ''Login failed''
                         | Some m \<Rightarrow> if m \<noteq> [] then m else ''Login failed'')\<rparr>, False)
   \<and> (noSession s \<longrightarrow> noSession (fst (login s (Inl error))))
   \<and> (srv k (admin_requestInterceptor a (loginRequest api address password)) = Inr data \<and>
        truthy (r_token data) \<longrightarrow>
        admin_login (Suc n) api srv (a, k) address password =
          Some ((a\<lparr>adminToken := r_token data, refreshTokenItem := storage_set (r_refreshToken data),
                   adminUser := storage_set (r_user data), admin_user := r_user data,
                   admin_isAuthenticated := True\<rparr>, Suc k), Inr ()))
   \<and> (srv k (admin_requestInterceptor a (loginRequest api address password)) = Inr data \<and>
        \<not> truthy (r_token data) \<longrightarrow>
        admin_login (Suc n) api srv (a, k) address password =
          Some ((a, Suc k), Inl (Error ''Invalid email or password'')))
   \<and> (srv k (admin_requestInterceptor a (loginRequest api address password)) = Inl error \<and>
        status error \<noteq> Some 401 \<longrightarrow>
        admin_login (Suc n) api srv (a, k) address password =
          Some ((a, Suc k), Inl (Error ''Invalid email or password'')))
   \<and> (srv k (admin_requestInterceptor a (loginRequest api address password)) = Inl error \<and>
        admin_noSession a \<longrightarrow>
        admin_login (Suc (Suc (Suc n))) api srv (a, k) address password =
          Some ((a, Suc k), Inl (Error ''Invalid email or password'')))"
proof -
  let ?cfg = "loginRequest api address password"
  have customer: "login s (Inr data) =
     (s\<lparr>c_user := r_user data, c_token := r_token data,
        c_stored := Some (case r_token data of None \<Rightarrow> ''undefined'' | Some t \<Rightarrow> t),
        c_isLoading := False, c_error := None\<rparr>, True)"
    by (simp add: login_def)
  have failed: "login s (Inl error) =
     (s\<lparr>c_isLoading := False,
        c_error := Some (case message error of
                           None \<Rightarrow> ''Login failed''
                         | Some m \<Rightarrow> if m \<noteq> [] then m else ''Login failed'')\<rparr>, False)"
    by (simp add: login_def)
  have still: "noSession s \<longrightarrow> noSession (fst (login s (Inl error)))"
    by (simp add: failed noSession_def)
  have installed: "srv k (admin_requestInterceptor a ?cfg) = Inr data \<and> truthy (r_token data) \<longrightarrow>
        admin_login (Suc n) api srv (a, k) address password =
          Some ((a\<lparr>adminToken := r_token data, refreshTokenItem := storage_set (r_refreshToken data),
                   adminUser := storage_set (r_user data), admin_user := r_user data,
                   admin_isAuthenticated := True\<rparr>, Suc k), Inr ())"
    by (simp add: admin_login_def)
  have noToken: "srv k (admin_requestInterceptor a ?cfg) = Inr data \<and> \<not> truthy (r_token data) \<longrightarrow>
        admin_login (Suc n) api srv (a, k) address password =
          Some ((a, Suc k), Inl (Error ''Invalid email or password''))"
    by (simp add: admin_login_def)
  have other: "srv k (admin_requestInterceptor a ?cfg) = Inl error \<and> status error \<noteq> Some 401 \<longrightarrow>
        admin_login (Suc n) api srv (a, k) address password =
          Some ((a, Suc k), Inl (Error ''Invalid email or password''))"
    by (simp add: admin_login_def)
  have idle: "srv k (admin_requestInterceptor a ?cfg) = Inl error \<and> admin_noSession a \<longrightarrow>
        admin_login (Suc (Suc (Suc n))) api srv (a, k) address password =
          Some ((a, Suc k), Inl (Error ''Invalid email or password''))"
  proof (intro impI, elim conjE)
    assume answer: "srv k (admin_requestInterceptor a ?cfg) = Inl error" and idle: "admin_noSession a"
    show "admin_login (Suc (Suc (Suc n))) api srv (a, k) address password =
          Some ((a, Suc k), Inl (Error ''Invalid email or password''))"
    proof (cases "status error = Some 401")
      case True
      with idle answer
      have "admin_axios (Suc (Suc (Suc n))) api srv (a, k) ?cfg =
            Some ((a, Suc k), Inl (Error ''No refresh token found''))"
        by (rule admin_axios_unauthorized_idle)
      then show ?thesis by (simp add: admin_login_def)
    next
      case False
      with answer
      have "admin_axios (Suc (Suc (Suc n))) api srv (a, k) ?cfg = Some ((a, Suc k), Inl error)"
        by (rule admin_axios_failed)
      then show ?thesis by (simp add: admin_login_def)
    qed
  qed
  from customer failed still installed noToken other idle show ?thesis by blast
qed

theorem login_installs_session_or_nothing_witness:
  "login (customer_initial None)
      (Inr \<lparr>r_token = Some ''t1'', r_refreshToken = None, r_user = Some user0\<rparr>) =
     (\<lparr>c_user = Some user0, c_token = Some ''t1'', c_stored = Some ''t1'', c_isLoading = False,
        c_error = None\<rparr>, True)
   \<and> login (customer_initial None) (Inl (AxiosError (Some 401) (Some ''Bad password''))) =
     ((customer_initial None)\<lparr>c_error := Some ''Bad password''\<rparr>, False)
   \<and> noSession (fst (login (customer_initial None) (Inl (AxiosError (Some 401) (Some ''Bad password'')))))
   \<and> admin_login 1 api0
        (\<lambda>k cfg. Inr \<lparr>r_token = Some ''t1'', r_refreshToken = Some ''r1'', r_user = Some user0\<rparr>)
        (admin_clear admin0, 0) ''ann@example.org'' ''secret'' =
     Some ((admin0\<lparr>adminToken := Some ''t1'', refreshTokenItem := Some (Parsed ''r1'')\<rparr>, 1), Inr ())
   \<and> admin_login 1 api0
        (\<lambda>k cfg. Inr \<lparr>r_token = None, r_refreshToken = Some ''r1'', r_user = Some user0\<rparr>)
        (admin_clear admin0, 0) ''ann@example.org'' ''secret'' =
     Some ((admin_clear admin0, 1), Inl (Error ''Invalid email or password''))
   \<and> admin_login 1 api0 (\<lambda>k cfg. Inl (AxiosError (Some 500) None))
        (admin0, 0) ''ann@example.org'' ''secret'' =
     Some ((admin0, 1), Inl (Error ''Invalid email or password''))
   \<and> admin_login 3 api0 (\<lambda>k cfg. Inl unauthorized)
        (admin_clear admin0, 0) ''ann@example.org'' ''secret'' =
     Some ((admin_clear admin0, 1), Inl (Error ''Invalid email or password''))"
proof -
  let ?ok = "\<lparr>r_token = Some ''t1'', r_refreshToken = Some ''r1'', r_user = Some user0\<rparr>"
  let ?bare = "\<lparr>r_token = None, r_refreshToken = Some ''r1'', r_user = Some user0\<rparr>"
  have idle: "admin_noSession (admin_clear admin0)"
    by (rule admin_clear_noSession)
  have one: "(1::nat) = Suc 0" and three: "(3::nat) = Suc (Suc (Suc 0))"
    by simp_all
  note customer = login_installs_session_or_nothing [where s = "customer_initial None"
      and data = "\<lparr>r_token = Some ''t1'', r_refreshToken = None, r_user = Some user0\<rparr>"
      and error = "AxiosError (Some 401) (Some ''Bad password'')"]
  have c1: "login (customer_initial None)
      (Inr \<lparr>r_token = Some ''t1'', r_refreshToken = None, r_user = Some user0\<rparr>) =
     (\<lparr>c_user = Some user0, c_token = Some ''t1'', c_stored = Some ''t1'', c_isLoading = False,
        c_error = None\<rparr>, True)"
    using customer [THEN conjunct1] by (simp add: customer_initial_def)
  have c2: "login (customer_initial None) (Inl (AxiosError (Some 401) (Some ''Bad password''))) =
     ((customer_initial None)\<lparr>c_error := Some ''Bad password''\<rparr>, False)"
    using customer [THEN conjunct2, THEN conjunct1] by (simp add: customer_initial_def)
  have c3: "noSession (fst (login (customer_initial None)
      (Inl (AxiosError (Some 401) (Some ''Bad password'')))))"
    using customer [THEN conjunct2, THEN conjunct2, THEN conjunct1]
    by (simp add: customer_initial_def noSession_def)
  have a1: "admin_login 1 api0 (\<lambda>k cfg. Inr ?ok)
        (admin_clear admin0, 0) ''ann@example.org'' ''secret'' =
     Some ((admin0\<lparr>adminToken := Some ''t1'', refreshTokenItem := Some (Parsed ''r1'')\<rparr>, 1), Inr ())"
    using login_installs_session_or_nothing [where srv = "\<lambda>k cfg. Inr ?ok" and data = ?ok
        and a = "admin_clear admin0" and k = 0 and n = 0 and api = api0
        and address = "''ann@example.org''" and password = "''secret''",
        THEN conjunct2, THEN conjunct2, THEN conjunct2, THEN conjunct1]
    by (simp add: admin_clear_def storage_set_def)
  have a2: "admin_login 1 api0 (\<lambda>k cfg. Inr ?bare)
        (admin_clear admin0, 0) ''ann@example.org'' ''secret'' =
     Some ((admin_clear admin0, 1), Inl (Error ''Invalid email or password''))"
    using login_installs_session_or_nothing [where srv = "\<lambda>k cfg. Inr ?bare" and data = ?bare
        and a = "admin_clear admin0" and k = 0 and n = 0 and api = api0
        and address = "''ann@example.org''" and password = "''secret''",
        THEN conjunct2, THEN conjunct2, THEN conjunct2, THEN conjunct2, THEN conjunct1]
    by simp
  have a3: "admin_login 1 api0 (\<lambda>k cfg. Inl (AxiosError (Some 500) None))
        (admin0, 0) ''ann@example.org'' ''secret'' =
     Some ((admin0, 1), Inl (Error ''Invalid email or password''))"
    using login_installs_session_or_nothing [where srv = "\<lambda>k cfg. Inl (AxiosError (Some 500) None)"
        and error = "AxiosError (Some 500) None"
        and a = admin0 and k = 0 and n = 0 and api = api0
        and address = "''ann@example.org''" and password = "''secret''",
        THEN conjunct2, THEN conjunct2, THEN conjunct2, THEN conjunct2, THEN conjunct2,
        THEN conjunct1]
    by simp
  have a4: "admin_login 3 api0 (\<lambda>k cfg. Inl unauthorized)
        (admin_clear admin0, 0) ''ann@example.org'' ''secret'' =
     Some ((admin_clear admin0, 1), Inl (Error ''Invalid email or password''))"
    using idle login_installs_session_or_nothing [where srv = "\<lambda>k cfg. Inl unauthorized"
        and error = unauthorized
        and a = "admin_clear admin0" and k = 0 and n = 0 and api = api0
        and address = "''ann@example.org''" and password = "''secret''",
        THEN conjunct2, THEN conjunct2, THEN conjunct2, THEN conjunct2, THEN conjunct2,
        THEN conjunct2]
    by (simp add: three del: admin_axios.simps)
  from c1 c2 c3 a1 a2 a3 a4 show ?thesis by (intro conjI)
qed

text \<open>
  No typed error comes back. In the admin portal a network failure, a server error and
  rejected credentials all throw the same error; in the customer portal a network
  failure and a server error both return \<^verbatim>\<open>false\<close> and leave the same message.
\<close>

theorem login_errors_not_distinguished_counterexample:
  "admin_login 3 api0 (\<lambda>k cfg. Inl (AxiosError None None))
        (admin_clear admin0, 0) ''ann@example.org'' ''secret'' =
     Some ((admin_clear admin0, 1), Inl (Error ''Invalid email or password''))
   \<and> admin_login 3 api0 (\<lambda>k cfg. Inl (AxiosError (Some 500) None))
        (admin_clear admin0, 0) ''ann@example.org'' ''secret'' =
     Some ((admin_clear admin0, 1), Inl (Error ''Invalid email or password''))
   \<and> admin_login 3 api0 (\<lambda>k cfg. Inl unauthorized)
        (admin_clear admin0, 0) ''ann@example.org'' ''secret'' =
     Some ((admin_clear admin0, 1), Inl (Error ''Invalid email or password''))
   \<and> login (customer_initial None) (Inl (AxiosError None None)) =
       ((customer_initial None)\<lparr>c_error := Some ''Login failed''\<rparr>, False)
   \<and> login (customer_initial None) (Inl (AxiosError (Some 500) None)) =
       ((customer_initial None)\<lparr>c_error := Some ''Login failed''\<rparr>, False)"
  by (simp add: admin_login_def login_def customer_initial_def admin_clear_def
      admin_requestInterceptor_def admin_refreshToken_begin_def storage_get_def
      numeral_3_eq_3)

text \<open>
  Claim C10 (customer portal, \<^verbatim>\<open>loadUser\<close> at lines 50-68 and the provider value at line
  212). \<^verbatim>\<open>isAuthenticated\<close> holds exactly when a token and a user are both present. On
  start-up no user is loaded, so a client with a persisted token is not authenticated;
  it becomes so when GET \<^verbatim>\<open>/auth/me\<close> resolves with the user, and when that call fails the
  persisted token is removed and the client is left without a session.
\<close>

theorem isAuthenticated_needs_token_and_user:
  "(isAuthenticated s \<longleftrightarrow> truthy (c_token s) \<and> c_user s \<noteq> None)
   \<and> \<not> isAuthenticated (customer_initial stored)
   \<and> (t \<noteq> [] \<longrightarrow> isAuthenticated (loadUser (customer_initial (Some t)) (Inr (Some u))))
   \<and> (t \<noteq> [] \<longrightarrow>
        loadUser (customer_initial (Some t)) (Inl error) = customer_initial None
        \<and> noSession (loadUser (customer_initial (Some t)) (Inl error))
        \<and> \<not> isAuthenticated (loadUser (customer_initial (Some t)) (Inl error)))"
  by (simp add: isAuthenticated_def customer_initial_def loadUser_def noSession_def)

theorem isAuthenticated_needs_token_and_user_witness:
  "\<not> isAuthenticated (customer_initial (Some ''t1''))
   \<and> isAuthenticated (loadUser (customer_initial (Some ''t1'')) (Inr (Some user0)))
   \<and> loadUser (customer_initial (Some ''t1'')) (Inl (AxiosError (Some 401) None)) = customer_initial None
   \<and> noSession (loadUser (customer_initial (Some ''t1'')) (Inl (AxiosError (Some 401) None)))"
proof -
  have "''t1'' \<noteq> []" by simp
  with isAuthenticated_needs_token_and_user [where stored = "Some ''t1''" and t = "''t1''"
      and u = user0 and error = "AxiosError (Some 401) None" and s = "customer_initial None"]
  show ?thesis by blast
qed

end
